theory Spec2Isabelle
  imports Complex_Main
begin

section \<open>Values exchanged with the platform\<close>

text \<open>
  The application is TypeScript; the values it handles at run time that are typed
  \<open>any\<close> (the analysis returned by \<open>JSON.parse\<close>, the fields copied from it) are JSON
  values. Numbers are kept as exact rationals (the decimal the text denotes); texts
  are byte strings.
\<close>

datatype json =
    JNull
  | JBool bool
  | JNum rat
  | JStr string
  | JArr "json list"
  | JObj "(string \<times> json) list"

text \<open>A call of a platform or remote operation either throws or returns.\<close>

datatype 'a outcome = Throws | Returns 'a

text \<open>
  \<open>!v\<close> in JavaScript: \<open>null\<close>, \<open>false\<close>, \<open>0\<close> and the empty string are falsy, every
  array and object is truthy.
\<close>

fun truthy :: "json \<Rightarrow> bool" where
  "truthy JNull = False"
| "truthy (JBool b) = b"
| "truthy (JNum q) = (q \<noteq> 0)"
| "truthy (JStr s) = (s \<noteq> [])"
| "truthy (JArr _) = True"
| "truthy (JObj _) = True"

text \<open>
  Property access \<open>v.k\<close> for the keys the application reads (\<open>type\<close>, \<open>urgency\<close>,
  \<open>confidence\<close>, \<open>action\<close>): an object yields the value of the last member with that
  key, \<open>None\<close> stands for \<open>undefined\<close>. Strings, numbers, booleans and arrays have
  no property of these names. (\<open>null.k\<close> throws; the application reads properties only
  of truthy values.)
\<close>

fun get_prop :: "string \<Rightarrow> json \<Rightarrow> json option" where
  "get_prop k (JObj ms) = map_of (rev ms) k"
| "get_prop k _ = None"

section \<open>The platform's \<open>JSON.parse\<close>\<close>

text \<open>
  \<open>JSON.parse\<close> belongs to the JavaScript platform, not to the repository. The
  classifier adapter below takes the parser as a parameter, so that what is proved
  about it holds of any parser. For evaluation on concrete reply texts, \<open>json_parse\<close>
  implements the JSON grammar (ECMA-404) by recursive descent over ASCII texts:
  white space, the three literals, numbers with optional fraction and exponent,
  strings with the escapes, arrays and objects. A \<open>\u\<close> escape above \<open>007F\<close> is
  outside the byte-string model and is refused, and a number is the exact decimal
  where \<open>JSON.parse\<close> rounds it to a double. The recursion is bounded by fuel;
  \<open>json_parse\<close> supplies two units of fuel for each character, and every nested
  call consumes a character at least every second step.
\<close>

definition is_ws :: "char \<Rightarrow> bool" where
  "is_ws c = (c = CHR 0x20 \<or> c = CHR 0x09 \<or> c = CHR 0x0A \<or> c = CHR 0x0D)"

definition is_digit :: "char \<Rightarrow> bool" where
  "is_digit c = (48 \<le> (of_char c :: nat) \<and> (of_char c :: nat) \<le> 57)"

definition digit_val :: "char \<Rightarrow> nat" where
  "digit_val c = (of_char c :: nat) - 48"

definition hex_val :: "char \<Rightarrow> nat option" where
  "hex_val c =
     (let n = (of_char c :: nat) in
      if 48 \<le> n \<and> n \<le> 57 then Some (n - 48)
      else if 65 \<le> n \<and> n \<le> 70 then Some (n - 55)
      else if 97 \<le> n \<and> n \<le> 102 then Some (n - 87)
      else None)"

definition nat_of_digits :: "string \<Rightarrow> nat" where
  "nat_of_digits ds = foldl (\<lambda>a c. 10 * a + digit_val c) 0 ds"

definition pow10 :: "int \<Rightarrow> rat" where
  "pow10 e = (if 0 \<le> e then 10 ^ nat e else 1 / 10 ^ nat (- e))"

definition parse_int_part :: "string \<Rightarrow> (string \<times> string) option" where
  "parse_int_part cs =
     (case cs of
        [] \<Rightarrow> None
      | c # r \<Rightarrow>
          if c = CHR ''0'' then Some ([c], r)
          else if is_digit c then Some (c # takeWhile is_digit r, dropWhile is_digit r)
          else None)"

definition parse_frac :: "string \<Rightarrow> (string \<times> string) option" where
  "parse_frac cs =
     (case cs of
        [] \<Rightarrow> Some ([], [])
      | c # r \<Rightarrow>
          if c = CHR ''.'' then
            (if takeWhile is_digit r = [] then None
             else Some (takeWhile is_digit r, dropWhile is_digit r))
          else Some ([], cs))"

definition parse_exp_digits :: "bool \<Rightarrow> string \<Rightarrow> (int \<times> string) option" where
  "parse_exp_digits neg r =
     (if takeWhile is_digit r = [] then None
      else Some ((if neg then - int (nat_of_digits (takeWhile is_digit r))
                  else int (nat_of_digits (takeWhile is_digit r))),
                 dropWhile is_digit r))"

definition parse_exp :: "string \<Rightarrow> (int \<times> string) option" where
  "parse_exp cs =
     (case cs of
        [] \<Rightarrow> Some (0, [])
      | c # r \<Rightarrow>
          if c = CHR ''e'' \<or> c = CHR ''E'' then
            (case r of
               [] \<Rightarrow> None
             | s # r' \<Rightarrow>
                 if s = CHR ''+'' then parse_exp_digits False r'
                 else if s = CHR ''-'' then parse_exp_digits True r'
                 else parse_exp_digits False r)
          else Some (0, cs))"

definition parse_unsigned :: "string \<Rightarrow> (rat \<times> string) option" where
  "parse_unsigned cs =
     (case parse_int_part cs of
        None \<Rightarrow> None
      | Some (ip, r1) \<Rightarrow>
          (case parse_frac r1 of
             None \<Rightarrow> None
           | Some (fp, r2) \<Rightarrow>
               (case parse_exp r2 of
                  None \<Rightarrow> None
                | Some (e, r3) \<Rightarrow>
                    Some (of_nat (nat_of_digits (ip @ fp)) * pow10 (e - int (length fp)), r3))))"

definition parse_number :: "string \<Rightarrow> (rat \<times> string) option" where
  "parse_number cs =
     (case cs of
        [] \<Rightarrow> None
      | c # r \<Rightarrow>
          if c = CHR ''-'' then
            (case parse_unsigned r of None \<Rightarrow> None | Some (q, r') \<Rightarrow> Some (- q, r'))
          else parse_unsigned cs)"

definition parse_escape :: "char \<Rightarrow> char option" where
  "parse_escape c =
     (if c = CHR 0x22 then Some (CHR 0x22)
      else if c = CHR 0x5C then Some (CHR 0x5C)
      else if c = CHR ''/'' then Some (CHR ''/'')
      else if c = CHR ''b'' then Some (CHR 0x08)
      else if c = CHR ''f'' then Some (CHR 0x0C)
      else if c = CHR ''n'' then Some (CHR 0x0A)
      else if c = CHR ''r'' then Some (CHR 0x0D)
      else if c = CHR ''t'' then Some (CHR 0x09)
      else None)"

definition parse_hex4 :: "char \<Rightarrow> char \<Rightarrow> char \<Rightarrow> char \<Rightarrow> char option" where
  "parse_hex4 a b c d =
     (case (hex_val a, hex_val b, hex_val c, hex_val d) of
        (Some x, Some y, Some z, Some w) \<Rightarrow>
          (if 4096 * x + 256 * y + 16 * z + w < 128
           then Some (char_of (4096 * x + 256 * y + 16 * z + w)) else None)
      | _ \<Rightarrow> None)"

text \<open>
  The characters of a string literal after its opening quote, up to and including
  the closing quote. The fuel is the number of characters that may still be read.
\<close>

fun parse_chars :: "nat \<Rightarrow> string \<Rightarrow> (string \<times> string) option" where
  "parse_chars 0 cs = None"
| "parse_chars (Suc n) [] = None"
| "parse_chars (Suc n) (c # cs) =
     (if c = CHR 0x22 then Some ([], cs)
      else if c = CHR 0x5C then
        (case cs of
           [] \<Rightarrow> None
         | e # r \<Rightarrow>
             if e = CHR ''u'' then
               (case r of
                  a # b # x # d # r' \<Rightarrow>
                    (case parse_hex4 a b x d of
                       None \<Rightarrow> None
                     | Some ch \<Rightarrow>
                         (case parse_chars n r' of
                            None \<Rightarrow> None
                          | Some (s, rest) \<Rightarrow> Some (ch # s, rest)))
                | _ \<Rightarrow> None)
             else
               (case parse_escape e of
                  None \<Rightarrow> None
                | Some ch \<Rightarrow>
                    (case parse_chars n r of
                       None \<Rightarrow> None
                     | Some (s, rest) \<Rightarrow> Some (ch # s, rest))))
      else if (of_char c :: nat) < 32 then None
      else
        (case parse_chars n cs of
           None \<Rightarrow> None
         | Some (s, rest) \<Rightarrow> Some (c # s, rest)))"

definition parse_string :: "string \<Rightarrow> (string \<times> string) option" where
  "parse_string cs = parse_chars (length cs) cs"

definition parse_literal :: "string \<Rightarrow> (json \<times> string) option" where
  "parse_literal cs =
     (if take 4 cs = ''true'' then Some (JBool True, drop 4 cs)
      else if take 5 cs = ''false'' then Some (JBool False, drop 5 cs)
      else if take 4 cs = ''null'' then Some (JNull, drop 4 cs)
      else None)"

fun parse_value :: "nat \<Rightarrow> string \<Rightarrow> (json \<times> string) option"
  and parse_elements :: "nat \<Rightarrow> string \<Rightarrow> (json list \<times> string) option"
  and parse_members :: "nat \<Rightarrow> string \<Rightarrow> ((string \<times> json) list \<times> string) option"
where
  "parse_value 0 cs = None"
| "parse_value (Suc n) cs =
     (case dropWhile is_ws cs of
        [] \<Rightarrow> None
      | c # r \<Rightarrow>
          if c = CHR ''['' then
            (case dropWhile is_ws r of
               [] \<Rightarrow> None
             | d # r' \<Rightarrow>
                 if d = CHR '']'' then Some (JArr [], r')
                 else (case parse_elements n r of
                         None \<Rightarrow> None
                       | Some (vs, rest) \<Rightarrow> Some (JArr vs, rest)))
          else if c = CHR ''{'' then
            (case dropWhile is_ws r of
               [] \<Rightarrow> None
             | d # r' \<Rightarrow>
                 if d = CHR ''}'' then Some (JObj [], r')
                 else (case parse_members n r of
                         None \<Rightarrow> None
                       | Some (ms, rest) \<Rightarrow> Some (JObj ms, rest)))
          else if c = CHR 0x22 then
            (case parse_string r of
               None \<Rightarrow> None
             | Some (s, rest) \<Rightarrow> Some (JStr s, rest))
          else if c = CHR ''-'' \<or> is_digit c then
            (case parse_number (c # r) of
               None \<Rightarrow> None
             | Some (q, rest) \<Rightarrow> Some (JNum q, rest))
          else parse_literal (c # r))"
| "parse_elements 0 cs = None"
| "parse_elements (Suc n) cs =
     (case parse_value n cs of
        None \<Rightarrow> None
      | Some (v, r) \<Rightarrow>
          (case dropWhile is_ws r of
             [] \<Rightarrow> None
           | d # r' \<Rightarrow>
               if d = CHR '','' then
                 (case parse_elements n r' of
                    None \<Rightarrow> None
                  | Some (vs, rest) \<Rightarrow> Some (v # vs, rest))
               else if d = CHR '']'' then Some ([v], r')
               else None))"
| "parse_members 0 cs = None"
| "parse_members (Suc n) cs =
     (case dropWhile is_ws cs of
        [] \<Rightarrow> None
      | q # r0 \<Rightarrow>
          if q \<noteq> CHR 0x22 then None
          else
            (case parse_string r0 of
               None \<Rightarrow> None
             | Some (k, r1) \<Rightarrow>
                 (case dropWhile is_ws r1 of
                    [] \<Rightarrow> None
                  | col # r2 \<Rightarrow>
                      if col \<noteq> CHR '':'' then None
                      else
                        (case parse_value n r2 of
                           None \<Rightarrow> None
                         | Some (v, r3) \<Rightarrow>
                             (case dropWhile is_ws r3 of
                                [] \<Rightarrow> None
                              | d # r4 \<Rightarrow>
                                  if d = CHR '','' then
                                    (case parse_members n r4 of
                                       None \<Rightarrow> None
                                     | Some (ms, rest) \<Rightarrow> Some ((k, v) # ms, rest))
                                  else if d = CHR ''}'' then Some ([(k, v)], r4)
                                  else None)))))"

definition json_parse :: "string \<Rightarrow> json option" where
  "json_parse text =
     (case parse_value (2 * length text + 2) text of
        None \<Rightarrow> None
      | Some (v, rest) \<Rightarrow> if dropWhile is_ws rest = [] then Some v else None)"

section \<open>Classifier adapter\<close>

text \<open>
  \<open>analyzeAudio\<close> (AudioRecorder.tsx) awaits \<open>blink.ai.generateText\<close> with a fixed
  prompt; its argument \<open>audioBase64\<close> is not used in the request. A failed request
  rejects the await, and \<open>analyzeAudio\<close> throws. Otherwise the reply text goes
  through \<open>JSON.parse\<close>, and the \<open>catch\<close> branch returns the fallback object.
\<close>

definition fallback_action :: string where
  "fallback_action = ''Check if baby needs feeding, changing, or comfort''"

definition fallback_analysis :: "string \<Rightarrow> json" where
  "fallback_analysis text =
     JObj [(''type'', JStr ''general''),
           (''urgency'', JStr ''medium''),
           (''confidence'', JNum 75),
           (''action'', JStr fallback_action),
           (''explanation'', JStr text)]"

definition analyzeAudio :: "(string \<Rightarrow> json option) \<Rightarrow> string outcome \<Rightarrow> json outcome" where
  "analyzeAudio parse reply =
     (case reply of
        Throws \<Rightarrow> Throws
      | Returns text \<Rightarrow>
          (case parse text of
             Some v \<Rightarrow> Returns v
           | None \<Rightarrow> Returns (fallback_analysis text)))"

section \<open>Recorder\<close>

text \<open>
  The component state of \<open>AudioRecorder\<close> (AudioRecorder.tsx): the three \<open>useState\<close>
  cells and the four refs. The \<open>MediaRecorder\<close> is represented by its \<open>state\<close>
  attribute, the analyser node by its presence, a chunk by its bytes.
\<close>

datatype mr_state = Inactive | Recording | Paused

record recorder =
  isRecording :: bool
  isAnalyzing :: bool
  audioLevel :: rat
  mediaRecorderRef :: "mr_state option"
  audioChunksRef :: "string list"
  animationFrameRef :: "nat option"
  analyserRef :: bool

text \<open>
  What a handler does to the outside, in the order it does it: console output, the
  microphone stream, the recorder, the classification request and the
  \<open>onRecordingComplete\<close> callback with its two arguments (\<open>None\<close> is \<open>undefined\<close>,
  \<open>JNull\<close> is \<open>null\<close>).
\<close>

datatype event =
    ConsoleError string
  | ConsoleLog string
  | MicAcquired
  | RecorderStarted
  | RecorderStopped
  | FrameRequested
  | FrameCancelled
  | BlobBuilt string
  | Base64Encoded "string option"
  | ClassifierRequest
  | RecordingComplete "string option" json
  | MicReleased
  | AudioContextClosed

text \<open>\<open>if (animationFrameRef.current)\<close>: a handle is a number, and \<open>0\<close> is falsy.\<close>

definition frame_pending :: "recorder \<Rightarrow> bool" where
  "frame_pending st = (case animationFrameRef st of None \<Rightarrow> False | Some h \<Rightarrow> h \<noteq> 0)"

text \<open>
  \<open>updateLevel\<close>, one display tick. \<open>rec_closure\<close> is the value of \<open>isRecording\<close> that
  the closure captured when the component rendered; \<open>freq\<close> is what
  \<open>getByteFrequencyData\<close> delivers and \<open>handle\<close> what \<open>requestAnimationFrame\<close> returns.
\<close>

definition updateLevel :: "bool \<Rightarrow> nat list \<Rightarrow> nat \<Rightarrow> recorder \<Rightarrow> recorder \<times> event list" where
  "updateLevel rec_closure freq handle st =
     (if \<not> analyserRef st \<or> \<not> rec_closure then (st, [])
      else (st\<lparr>audioLevel := (of_nat (sum_list freq) / of_nat (length freq)) / 255,
               animationFrameRef := Some handle\<rparr>,
            [FrameRequested]))"

definition monitorAudioLevel :: "bool \<Rightarrow> nat list \<Rightarrow> nat \<Rightarrow> recorder \<Rightarrow> recorder \<times> event list" where
  "monitorAudioLevel rec_closure freq handle st =
     (if \<not> analyserRef st then (st, []) else updateLevel rec_closure freq handle st)"

text \<open>
  \<open>startRecording\<close>. \<open>media\<close> is the outcome of \<open>getUserMedia\<close>; a rejection lands in
  the \<open>catch\<close>, which logs and does nothing else. On success the analyser and the
  recorder are installed, the chunk list is emptied, the recorder is started and
  \<open>isRecording\<close> is set; the \<open>onstop\<close> handler installed here is \<open>onstop\<close> below.
\<close>

definition startRecording :: "unit outcome \<Rightarrow> nat list \<Rightarrow> nat \<Rightarrow> recorder \<Rightarrow> recorder \<times> event list" where
  "startRecording media freq handle st =
     (case media of
        Throws \<Rightarrow> (st, [ConsoleError ''Failed to start recording:''])
      | Returns _ \<Rightarrow>
          (let st1 = st\<lparr>analyserRef := True, mediaRecorderRef := Some Recording,
                         audioChunksRef := [], isRecording := True\<rparr>;
               (st2, tr) = monitorAudioLevel (isRecording st) freq handle st1
           in (st2, [MicAcquired, RecorderStarted] @ tr)))"

text \<open>\<open>ondataavailable\<close> pushes the chunk.\<close>

definition ondataavailable :: "string \<Rightarrow> recorder \<Rightarrow> recorder" where
  "ondataavailable chunk st = st\<lparr>audioChunksRef := audioChunksRef st @ [chunk]\<rparr>"

text \<open>
  \<open>stopRecording\<close> (AudioRecorder.tsx): guarded by the recorder's own state; the
  platform then finalizes the stream and fires \<open>onstop\<close>.
\<close>

definition stopRecording :: "recorder \<Rightarrow> recorder \<times> event list" where
  "stopRecording st =
     (if mediaRecorderRef st = Some Recording
      then (st\<lparr>mediaRecorderRef := Some Inactive\<rparr>, [RecorderStopped])
      else (st, []))"

text \<open>\<open>s.split(',')\<close> and the element at index 1 (\<open>undefined\<close> when there is none).\<close>

fun split_on :: "char \<Rightarrow> string \<Rightarrow> string list" where
  "split_on c [] = [[]]"
| "split_on c (x # xs) =
     (if x = c then [] # split_on c xs
      else (case split_on c xs of
              [] \<Rightarrow> [[x]]
            | p # ps \<Rightarrow> (x # p) # ps))"

definition base64Data :: "string \<Rightarrow> string option" where
  "base64Data dataUrl =
     (case split_on (CHR '','') dataUrl of
        _ # b # _ \<Rightarrow> Some b
      | _ \<Rightarrow> None)"

text \<open>
  \<open>onstop\<close> (AudioRecorder.tsx, lines 40 to 78). \<open>reader\<close> is the outcome of
  \<open>readAsDataURL\<close> (the data URL, or \<open>onerror\<close>, which rejects the awaited promise and
  with it the handler), \<open>reply\<close> the outcome of the classification request. The
  third component says whether the handler itself completed or rejected.
\<close>

definition onstop ::
  "(string \<Rightarrow> json option) \<Rightarrow> string outcome \<Rightarrow> string outcome \<Rightarrow> recorder
     \<Rightarrow> recorder \<times> event list \<times> unit outcome" where
  "onstop parse reader reply st =
     (let st1 = st\<lparr>isAnalyzing := True, isRecording := False, audioLevel := 0\<rparr>;
          tr1 = (if frame_pending st then [FrameCancelled] else [])
                @ [BlobBuilt (concat (audioChunksRef st))]
      in case reader of
           Throws \<Rightarrow> (st1, tr1, Throws)
         | Returns dataUrl \<Rightarrow>
             (let base64 = base64Data dataUrl;
                  tr2 = tr1 @ [Base64Encoded base64, ClassifierRequest]
              in case analyzeAudio parse reply of
                   Returns analysis \<Rightarrow>
                     (st1\<lparr>isAnalyzing := False\<rparr>,
                      tr2 @ [RecordingComplete base64 analysis, MicReleased, AudioContextClosed],
                      Returns ())
                 | Throws \<Rightarrow>
                     (st1\<lparr>isAnalyzing := False\<rparr>,
                      tr2 @ [ConsoleError ''Audio analysis failed:'',
                             RecordingComplete base64 JNull, MicReleased, AudioContextClosed],
                      Returns ())))"

text \<open>
  The other version of the component in the repository (lines 40 to 67 of its
  \<open>onstop\<close>) leaves the state cells to \<open>stopRecording\<close> and has no \<open>finally\<close>; the
  order of encoding, request, callback and clean-up is the same.
\<close>

definition onstop_v0 ::
  "(string \<Rightarrow> json option) \<Rightarrow> string outcome \<Rightarrow> string outcome \<Rightarrow> recorder
     \<Rightarrow> recorder \<times> event list \<times> unit outcome" where
  "onstop_v0 parse reader reply st =
     (let tr1 = [BlobBuilt (concat (audioChunksRef st))]
      in case reader of
           Throws \<Rightarrow> (st, tr1, Throws)
         | Returns dataUrl \<Rightarrow>
             (let base64 = base64Data dataUrl;
                  tr2 = tr1 @ [Base64Encoded base64, ClassifierRequest]
              in case analyzeAudio parse reply of
                   Returns analysis \<Rightarrow>
                     (st,
                      tr2 @ [RecordingComplete base64 analysis, MicReleased, AudioContextClosed],
                      Returns ())
                 | Throws \<Rightarrow>
                     (st,
                      tr2 @ [ConsoleError ''Audio analysis failed:'',
                             RecordingComplete base64 JNull, MicReleased, AudioContextClosed],
                      Returns ())))"

text \<open>Position of the first occurrence of an event satisfying \<open>P\<close> in a trace.\<close>

fun first_index :: "('a \<Rightarrow> bool) \<Rightarrow> 'a list \<Rightarrow> nat option" where
  "first_index P [] = None"
| "first_index P (x # xs) =
     (if P x then Some 0 else map_option Suc (first_index P xs))"

text \<open>
  \<open>precedes P Q tr\<close>: both kinds of event occur in the trace, and the first \<open>P\<close>
  comes before the first \<open>Q\<close>.
\<close>

definition precedes :: "('a \<Rightarrow> bool) \<Rightarrow> ('a \<Rightarrow> bool) \<Rightarrow> 'a list \<Rightarrow> bool" where
  "precedes P Q tr =
     (case (first_index P tr, first_index Q tr) of
        (Some i, Some j) \<Rightarrow> i < j
      | _ \<Rightarrow> False)"

fun is_encoded :: "event \<Rightarrow> bool" where
  "is_encoded (Base64Encoded _) = True"
| "is_encoded _ = False"

fun is_callback :: "event \<Rightarrow> bool" where
  "is_callback (RecordingComplete _ _) = True"
| "is_callback _ = False"

fun is_blob :: "event \<Rightarrow> bool" where
  "is_blob (BlobBuilt _) = True"
| "is_blob _ = False"

fun is_request :: "event \<Rightarrow> bool" where
  "is_request ClassifierRequest = True"
| "is_request _ = False"

fun is_release :: "event \<Rightarrow> bool" where
  "is_release MicReleased = True"
| "is_release _ = False"

section \<open>Recordings and the two stores\<close>

text \<open>
  The \<open>Recording\<close> interface. The four fields copied from the analysis hold whatever
  the analysis held (\<open>None\<close> when the property was missing). The two ISO-8601 time
  strings are represented by the instants they render, in milliseconds; the fixed
  width of the rendering makes both orders agree.
\<close>

record recording =
  rid :: string
  userId :: string
  rtype :: "json option"
  urgency :: "json option"
  confidence :: "json option"
  action :: "json option"
  audioData :: string
  timestamp :: nat
  createdAt :: nat

record user =
  user_id :: string
  email :: string

text \<open>
  What a \<open>localStorage\<close> slot holds, as \<open>JSON.parse\<close> sees it: the empty string, a
  text that does not parse, a text that parses to something that is no array, or
  the array of recordings that \<open>JSON.stringify\<close> wrote.
\<close>

datatype stored = EmptyText | Malformed | NotArray | Records "recording list"

text \<open>
  The world outside the components: the rows of the remote \<open>recordings\<close> table, the
  \<open>localStorage\<close> of the browser, and the console.
\<close>

record world =
  db :: "recording list"
  localStorage :: "string \<Rightarrow> stored option"
  console :: "event list"

definition storage_key :: "string \<Rightarrow> string" where
  "storage_key uid = ''recordings_'' @ uid"

text \<open>
  The remote persistence endpoint \<open>blink.db.recordings\<close> is a service of the client
  SDK and has no code in the repository. The spec gives it create, list (filter,
  order, limit) and delete, keyed by record identifier and user identifier, the
  list ordered by creation time descending. In each of the three operations \<open>ok\<close>
  says whether the call succeeds; a failed call throws and leaves the table as
  it is.
\<close>

text \<open>
  Modelled from the spec: \<open>blink.db.recordings.create\<close>, which is missing from the
  sources; a successful create adds the row to the table.
\<close>

definition db_create :: "bool \<Rightarrow> recording \<Rightarrow> recording list \<Rightarrow> recording list outcome" where
  "db_create ok r rows = (if ok then Returns (rows @ [r]) else Throws)"

text \<open>
  Modelled from the spec: \<open>blink.db.recordings.list\<close>, which is missing from the
  sources; a successful list returns the rows of the user, ordered by creation
  time descending, up to the limit.
\<close>

definition db_list :: "bool \<Rightarrow> string \<Rightarrow> nat \<Rightarrow> recording list \<Rightarrow> recording list outcome" where
  "db_list ok uid n rows =
     (if ok then Returns (take n (rev (sort_key createdAt (filter (\<lambda>r. userId r = uid) rows))))
      else Throws)"

text \<open>
  Modelled from the spec: \<open>blink.db.recordings.delete\<close>, which is missing from the
  sources; a successful delete removes the rows of that identifier.
\<close>

definition db_delete :: "bool \<Rightarrow> string \<Rightarrow> recording list \<Rightarrow> recording list outcome" where
  "db_delete ok i rows = (if ok then Returns (filter (\<lambda>r. rid r \<noteq> i) rows) else Throws)"

subsection \<open>App: completing and saving a recording\<close>

record app =
  appUser :: "user option"
  appLoading :: bool
  appIsAnalyzing :: bool
  currentAnalysis :: json
  currentAudioData :: "string option"

text \<open>\<open>handleRecordingComplete\<close> (App.tsx, lines 25 to 30).\<close>

definition handleRecordingComplete :: "string option \<Rightarrow> json \<Rightarrow> app \<Rightarrow> app" where
  "handleRecordingComplete audio analysis a =
     a\<lparr>currentAudioData := audio, currentAnalysis := analysis, appIsAnalyzing := False\<rparr>"

text \<open>
  What one call of \<open>handleSaveRecording\<close> reads from its environment: the clock (three
  times), the random suffix, and whether the remote create and the \<open>setItem\<close>
  succeed.
\<close>

record save_env =
  id_stamp :: string
  id_rand :: string
  timestamp_now :: nat
  createdAt_now :: nat
  create_ok :: bool
  setItem_ok :: bool

definition audio_truthy :: "string option \<Rightarrow> bool" where
  "audio_truthy a = (case a of None \<Rightarrow> False | Some s \<Rightarrow> s \<noteq> [])"

definition newRecording :: "save_env \<Rightarrow> user \<Rightarrow> json \<Rightarrow> string \<Rightarrow> recording" where
  "newRecording env u analysis audio =
     \<lparr>rid = ''rec_'' @ id_stamp env @ ''_'' @ id_rand env,
      userId = user_id u,
      rtype = get_prop ''type'' analysis,
      urgency = get_prop ''urgency'' analysis,
      confidence = get_prop ''confidence'' analysis,
      action = get_prop ''action'' analysis,
      audioData = audio,
      timestamp = timestamp_now env,
      createdAt = createdAt_now env\<rparr>"

text \<open>
  The fallback of \<open>handleSaveRecording\<close> (App.tsx, lines 53 to 61): read the slot,
  \<open>unshift\<close> the new recording, \<open>splice(50)\<close> when longer than 50, write the slot.
  \<open>JSON.parse\<close> of a malformed text throws, \<open>unshift\<close> on a value that is no array
  throws, and \<open>setItem\<close> may throw.
\<close>

definition save_local :: "bool \<Rightarrow> string \<Rightarrow> recording \<Rightarrow> (string \<Rightarrow> stored option)
    \<Rightarrow> (string \<Rightarrow> stored option) outcome" where
  "save_local write_ok key r ls =
     (case (case ls key of
              None \<Rightarrow> Returns []
            | Some EmptyText \<Rightarrow> Returns []
            | Some Malformed \<Rightarrow> Throws
            | Some NotArray \<Rightarrow> Throws
            | Some (Records rs) \<Rightarrow> Returns rs) of
        Throws \<Rightarrow> Throws
      | Returns rs \<Rightarrow>
          (let recordings = r # rs;
               recordings = (if length recordings > 50 then take 50 recordings else recordings)
           in if write_ok then Returns (ls(key \<mapsto> Records recordings)) else Throws))"

text \<open>\<open>handleSaveRecording\<close> (App.tsx, lines 32 to 70).\<close>

definition handleSaveRecording :: "save_env \<Rightarrow> app \<Rightarrow> world \<Rightarrow> app \<times> world" where
  "handleSaveRecording env a w =
     (if \<not> truthy (currentAnalysis a) \<or> \<not> audio_truthy (currentAudioData a) then (a, w)
      else case (appUser a, currentAudioData a) of
        (Some u, Some audio) \<Rightarrow>
          (let r = newRecording env u (currentAnalysis a) audio;
               cleared = a\<lparr>currentAnalysis := JNull, currentAudioData := None\<rparr>
           in case db_create (create_ok env) r (db w) of
                Returns rows \<Rightarrow> (cleared, w\<lparr>db := rows\<rparr>)
              | Throws \<Rightarrow>
                  (let w1 = w\<lparr>console := console w
                              @ [ConsoleLog ''Database not available, using localStorage:'']\<rparr>
                   in case save_local (setItem_ok env) (storage_key (user_id u)) r
                             (localStorage w1) of
                        Returns ls \<Rightarrow> (cleared, w1\<lparr>localStorage := ls\<rparr>)
                      | Throws \<Rightarrow>
                          (a, w1\<lparr>console := console w1
                                  @ [ConsoleError ''Failed to save recording:'']\<rparr>)))
      | _ \<Rightarrow> (a, w))"

text \<open>
  One recording completed and saved: the callback stores the pair, the save button
  stores the recording. A run of such steps is a fold.
\<close>

record save_step =
  step_audio :: "string option"
  step_analysis :: json
  step_env :: save_env

definition save_one :: "save_step \<Rightarrow> app \<times> world \<Rightarrow> app \<times> world" where
  "save_one s aw =
     handleSaveRecording (step_env s)
       (handleRecordingComplete (step_audio s) (step_analysis s) (fst aw)) (snd aw)"

fun save_all :: "save_step list \<Rightarrow> app \<times> world \<Rightarrow> app \<times> world" where
  "save_all [] aw = aw"
| "save_all (s # ss) aw = save_all ss (save_one s aw)"

subsection \<open>RecordingHistory: listing and deleting\<close>

record history =
  recordings :: "recording list"
  histLoading :: bool
  histUser :: "user option"
  usingLocalStorage :: bool

text \<open>
  \<open>loadRecordings\<close> (lines 82 to 116): the remote list with \<open>where\<close>, \<open>orderBy\<close>
  descending and \<open>limit: 20\<close>; when it throws, the slot of the user, with the empty
  list for an absent, empty, malformed or non-array slot.
\<close>

definition loadRecordings :: "bool \<Rightarrow> string \<Rightarrow> history \<Rightarrow> world \<Rightarrow> history \<times> world" where
  "loadRecordings list_ok uid h w =
     (case db_list list_ok uid 20 (db w) of
        Returns data \<Rightarrow>
          (h\<lparr>recordings := data, usingLocalStorage := False, histLoading := False\<rparr>, w)
      | Throws \<Rightarrow>
          (case localStorage w (storage_key uid) of
             Some (Records rs) \<Rightarrow>
               (h\<lparr>recordings := rs, usingLocalStorage := True, histLoading := False\<rparr>, w)
           | Some Malformed \<Rightarrow>
               (h\<lparr>recordings := [], usingLocalStorage := True, histLoading := False\<rparr>,
                w\<lparr>console := console w
                     @ [ConsoleError ''Failed to parse stored recordings:'']\<rparr>)
           | _ \<Rightarrow>
               (h\<lparr>recordings := [], usingLocalStorage := True, histLoading := False\<rparr>, w)))"

text \<open>
  The write both fallback branches of \<open>deleteRecording\<close> make: the displayed list
  without the id replaces the slot of the signed-in user; without a user nothing is
  written.
\<close>

definition delete_local :: "bool \<Rightarrow> string \<Rightarrow> history \<Rightarrow> (string \<Rightarrow> stored option)
    \<Rightarrow> (string \<Rightarrow> stored option) outcome" where
  "delete_local write_ok i h ls =
     (case histUser h of
        None \<Rightarrow> Returns ls
      | Some u \<Rightarrow>
          if write_ok
          then Returns (ls(storage_key (user_id u) \<mapsto> Records (filter (\<lambda>r. rid r \<noteq> i) (recordings h))))
          else Throws)"

text \<open>\<open>deleteRecording\<close> (lines 128 to 152).\<close>

definition deleteRecording :: "bool \<Rightarrow> bool \<Rightarrow> string \<Rightarrow> history \<Rightarrow> world \<Rightarrow> history \<times> world" where
  "deleteRecording delete_ok write_ok i h w =
     (let shown = h\<lparr>recordings := filter (\<lambda>r. rid r \<noteq> i) (recordings h)\<rparr>;
          failed = (h, w\<lparr>console := console w @ [ConsoleError ''Failed to delete recording:'']\<rparr>)
      in if \<not> usingLocalStorage h then
           (case db_delete delete_ok i (db w) of
              Returns rows \<Rightarrow> (shown, w\<lparr>db := rows\<rparr>)
            | Throws \<Rightarrow>
                (case delete_local write_ok i h (localStorage w) of
                   Returns ls \<Rightarrow> (shown, w\<lparr>localStorage := ls\<rparr>)
                 | Throws \<Rightarrow> failed))
         else
           (case delete_local write_ok i h (localStorage w) of
              Returns ls \<Rightarrow> (shown, w\<lparr>localStorage := ls\<rparr>)
            | Throws \<Rightarrow> failed))"

text \<open>Most recent first: creation times never increase along the list.\<close>

definition most_recent_first :: "recording list \<Rightarrow> bool" where
  "most_recent_first rs = sorted_wrt (\<lambda>a b. createdAt b \<le> createdAt a) rs"

text \<open>The recordings a slot holds, for counting and membership.\<close>

definition slot_records :: "stored option \<Rightarrow> recording list" where
  "slot_records s = (case s of Some (Records rs) \<Rightarrow> rs | _ \<Rightarrow> [])"

text \<open>
  The recording that a save step stores, and the steps that take the local
  fallback: something to save, the remote create failing, the local write
  succeeding.
\<close>

definition step_recording :: "user \<Rightarrow> save_step \<Rightarrow> recording" where
  "step_recording u s =
     newRecording (step_env s) u (step_analysis s)
       (case step_audio s of None \<Rightarrow> [] | Some audio \<Rightarrow> audio)"

definition local_step :: "save_step \<Rightarrow> bool" where
  "local_step s =
     (truthy (step_analysis s) \<and> audio_truthy (step_audio s)
      \<and> \<not> create_ok (step_env s) \<and> setItem_ok (step_env s))"

subsection \<open>An operation followed by a list\<close>

text \<open>
  A save by the signed-in user followed by \<open>loadRecordings\<close> for that user, and a
  delete followed by \<open>loadRecordings\<close>; \<open>list_ok\<close> says whether the remote list
  answers. The result is the list the history then displays.
\<close>

definition save_then_list :: "save_env \<Rightarrow> bool \<Rightarrow> app \<Rightarrow> history \<Rightarrow> world \<Rightarrow> recording list" where
  "save_then_list env list_ok a h w =
     (case appUser a of
        None \<Rightarrow> []
      | Some u \<Rightarrow>
          recordings (fst (loadRecordings list_ok (user_id u) h
             (snd (handleSaveRecording env a w)))))"




subsection \<open>The ranges the data model gives\<close>

text \<open>
  The spec's data model: urgency is one of low, medium, high; confidence is an
  integer from 0 to 100.
\<close>

definition valid_urgency :: "json option \<Rightarrow> bool" where
  "valid_urgency v =
     (v = Some (JStr ''low'') \<or> v = Some (JStr ''medium'') \<or> v = Some (JStr ''high''))"

definition valid_confidence :: "json option \<Rightarrow> bool" where
  "valid_confidence v =
     (case v of
        Some (JNum q) \<Rightarrow> 0 \<le> q \<and> q \<le> 100 \<and> of_int \<lfloor>q\<rfloor> = q
      | _ \<Rightarrow> False)"

definition valid_analysis :: "json \<Rightarrow> bool" where
  "valid_analysis v =
     (valid_urgency (get_prop ''urgency'' v) \<and> valid_confidence (get_prop ''confidence'' v))"

subsection \<open>Concrete inputs\<close>

definition sample_user :: user where
  "sample_user = \<lparr>user_id = ''u1'', email = ''parent@example.org''\<rparr>"

definition sample_env :: "nat \<Rightarrow> bool \<Rightarrow> save_env" where
  "sample_env n up =
     \<lparr>id_stamp = replicate n (CHR ''1''), id_rand = ''k3x9q2m1z'',
      timestamp_now = n, createdAt_now = n, create_ok = up, setItem_ok = True\<rparr>"

definition sample_step :: "nat \<Rightarrow> bool \<Rightarrow> save_step" where
  "sample_step n up =
     \<lparr>step_audio = Some ''UklGRg=='', step_analysis = fallback_analysis ''hungry'',
      step_env = sample_env n up\<rparr>"

definition sample_app :: app where
  "sample_app =
     \<lparr>appUser = Some sample_user, appLoading = False, appIsAnalyzing = False,
      currentAnalysis = JNull, currentAudioData = None\<rparr>"

definition pending_app :: app where
  "pending_app =
     handleRecordingComplete (Some ''UklGRg=='') (fallback_analysis ''hungry'') sample_app"

definition empty_world :: world where
  "empty_world = \<lparr>db = [], localStorage = (\<lambda>_. None), console = []\<rparr>"

definition sample_recording :: recording where
  "sample_recording = step_recording sample_user (sample_step 1 True)"

definition sample_history :: history where
  "sample_history =
     \<lparr>recordings = [], histLoading = True, histUser = Some sample_user,
      usingLocalStorage = False\<rparr>"

definition idle_recorder :: recorder where
  "idle_recorder =
     \<lparr>isRecording = False, isAnalyzing = False, audioLevel = 0, mediaRecorderRef = None,
      audioChunksRef = [], animationFrameRef = None, analyserRef = False\<rparr>"

definition loaded_history :: history where
  "loaded_history = sample_history\<lparr>recordings := [sample_recording], histLoading := False\<rparr>"

definition remote_world :: world where
  "remote_world = empty_world\<lparr>db := [sample_recording]\<rparr>"

definition stale_world :: world where
  "stale_world =
     remote_world\<lparr>localStorage :=
        (\<lambda>_. Some (Records [step_recording sample_user (sample_step 7 False)]))\<rparr>"

definition recording_recorder :: recorder where
  "recording_recorder =
     idle_recorder\<lparr>isRecording := True, mediaRecorderRef := Some Inactive,
       audioChunksRef := [''RIFF''], analyserRef := True\<rparr>"

definition sample_dataUrl :: string where
  "sample_dataUrl = ''data:audio/wav;base64,UklGRg==''"

definition bad_reply :: string where
  \<open>bad_reply = ''{"type":"hunger","urgency":"critical","confidence":150,"action":"Feed the baby","explanation":"Rhythmic cry"}''\<close>

definition bad_analysis :: json where
  "bad_analysis =
     JObj [(''type'', JStr ''hunger''), (''urgency'', JStr ''critical''),
           (''confidence'', JNum 150), (''action'', JStr ''Feed the baby''),
           (''explanation'', JStr ''Rhythmic cry'')]"

section \<open>Properties of the local fallback\<close>

lemma save_local_result:
  "save_local ok k r ls = Returns ls' \<Longrightarrow>
     ls k \<noteq> Some Malformed \<and> ls k \<noteq> Some NotArray \<and> ok \<and>
     ls' = ls(k \<mapsto> Records (take 50 (r # slot_records (ls k))))"
  by (auto simp: save_local_def slot_records_def Let_def
      split: option.splits stored.splits if_splits)

lemma save_local_ok:
  "ok \<Longrightarrow> ls k \<noteq> Some Malformed \<Longrightarrow> ls k \<noteq> Some NotArray \<Longrightarrow>
     save_local ok k r ls = Returns (ls(k \<mapsto> Records (take 50 (r # slot_records (ls k)))))"
  by (auto simp: save_local_def slot_records_def Let_def
      split: option.splits stored.splits if_splits)

lemma save_local_bounded:
  "save_local ok k r ls = Returns ls' \<Longrightarrow> length (slot_records (ls k')) \<le> 50 \<Longrightarrow>
     length (slot_records (ls' k')) \<le> 50"
  by (drule save_local_result) (auto simp: slot_records_def)

lemma handleSave_bounded:
  "length (slot_records (localStorage w k)) \<le> 50 \<Longrightarrow>
   length (slot_records (localStorage (snd (handleSaveRecording env a w)) k)) \<le> 50"
  by (auto simp: handleSaveRecording_def Let_def db_create_def
      split: option.splits outcome.splits if_splits dest: save_local_bounded)

lemma handleSave_local:
  assumes "truthy (currentAnalysis a)" "currentAudioData a = Some audio" "audio \<noteq> []"
    "appUser a = Some u" "\<not> create_ok env" "setItem_ok env"
    "localStorage w (storage_key (user_id u)) \<noteq> Some Malformed"
    "localStorage w (storage_key (user_id u)) \<noteq> Some NotArray"
  shows "localStorage (snd (handleSaveRecording env a w)) =
           (localStorage w)(storage_key (user_id u) \<mapsto>
              Records (take 50 (newRecording env u (currentAnalysis a) audio
                 # slot_records (localStorage w (storage_key (user_id u))))))"
    and "db (snd (handleSaveRecording env a w)) = db w"
    and "appUser (fst (handleSaveRecording env a w)) = Some u"
  using assms
  by (simp_all add: handleSaveRecording_def audio_truthy_def db_create_def Let_def save_local_ok)

lemma handleSave_remote:
  assumes "truthy (currentAnalysis a)" "currentAudioData a = Some audio" "audio \<noteq> []"
    "appUser a = Some u" "create_ok env"
  shows "db (snd (handleSaveRecording env a w)) =
           db w @ [newRecording env u (currentAnalysis a) audio]"
    and "localStorage (snd (handleSaveRecording env a w)) = localStorage w"
  using assms
  by (simp_all add: handleSaveRecording_def audio_truthy_def db_create_def Let_def)

lemma take_append_take: "take n (xs @ take n ys) = take n (xs @ ys)"
  by (simp add: min_def)

lemma save_all_local:
  assumes "\<forall>s\<in>set steps. local_step s" "appUser a = Some u"
    "localStorage w (storage_key (user_id u)) \<noteq> Some Malformed"
    "localStorage w (storage_key (user_id u)) \<noteq> Some NotArray"
    "steps \<noteq> []"
  shows "localStorage (snd (save_all steps (a, w))) (storage_key (user_id u)) =
           Some (Records (take 50 (rev (map (step_recording u) steps)
              @ slot_records (localStorage w (storage_key (user_id u))))))"
  using assms
proof (induction steps arbitrary: a w)
  case Nil
  then show ?case by simp
next
  case (Cons s steps)
  let ?k = "storage_key (user_id u)"
  let ?a = "handleRecordingComplete (step_audio s) (step_analysis s) a"
  obtain a' w' where aw: "save_one s (a, w) = (a', w')" by (cases "save_one s (a, w)")
  from Cons.prems(1) have s: "local_step s" by simp
  then obtain audio where au: "step_audio s = Some audio" "audio \<noteq> []"
    by (auto simp: local_step_def audio_truthy_def split: option.splits)
  have pre: "truthy (currentAnalysis ?a)" "currentAudioData ?a = Some audio"
    "appUser ?a = Some u" "\<not> create_ok (step_env s)" "setItem_ok (step_env s)"
    using s au Cons.prems(2) by (simp_all add: local_step_def handleRecordingComplete_def)
  have r: "newRecording (step_env s) u (currentAnalysis ?a) audio = step_recording u s"
    using au by (simp add: step_recording_def handleRecordingComplete_def)
  have ls': "localStorage w' = (localStorage w)(?k \<mapsto>
      Records (take 50 (step_recording u s # slot_records (localStorage w ?k))))"
    and u': "appUser a' = Some u"
    using handleSave_local(1,3) [OF pre(1,2) au(2) pre(3,4,5) Cons.prems(3,4)] aw r
    by (simp_all add: save_one_def)
  have old': "slot_records (localStorage w' ?k) =
      take 50 (step_recording u s # slot_records (localStorage w ?k))"
    unfolding ls' by (simp add: slot_records_def del: take_Cons_numeral)
  have ok': "localStorage w' ?k \<noteq> Some Malformed" "localStorage w' ?k \<noteq> Some NotArray"
    unfolding ls' by simp_all
  show ?case
  proof (cases "steps = []")
    case True
    then show ?thesis using aw ls' by (simp del: take_Cons_numeral)
  next
    case False
    have "localStorage (snd (save_all steps (a', w'))) ?k =
        Some (Records (take 50 (rev (map (step_recording u) steps)
          @ slot_records (localStorage w' ?k))))"
      using Cons.IH [OF _ u' ok' False] Cons.prems(1) by simp
    also have "take 50 (rev (map (step_recording u) steps) @ slot_records (localStorage w' ?k)) =
        take 50 (rev (map (step_recording u) steps)
          @ (step_recording u s # slot_records (localStorage w ?k)))"
      unfolding old' by (rule take_append_take)
    also have "rev (map (step_recording u) steps)
          @ (step_recording u s # slot_records (localStorage w ?k)) =
        rev (map (step_recording u) (s # steps)) @ slot_records (localStorage w ?k)"
      by simp
    finally show ?thesis using aw by simp
  qed
qed

text \<open>
  C2. Whatever the saves are (any user, remote create succeeding or failing, local
  write succeeding or failing), a slot of the local storage that holds at most 50
  recordings holds at most 50 after them: the bound is an invariant of every save.
\<close>

theorem local_list_bounded:
  "length (slot_records (localStorage w k)) \<le> 50 \<Longrightarrow>
   length (slot_records (localStorage (snd (save_all steps (a, w))) k)) \<le> 50"
proof (induction steps arbitrary: a w)
  case Nil
  then show ?case by simp
next
  case (Cons s steps)
  obtain a' w' where aw: "save_one s (a, w) = (a', w')" by (cases "save_one s (a, w)")
  have "length (slot_records (localStorage w' k)) \<le> 50"
    using handleSave_bounded [OF Cons.prems, of "step_env s"
        "handleRecordingComplete (step_audio s) (step_analysis s) a"] aw
    by (simp add: save_one_def)
  from Cons.IH [OF this] aw show ?case by simp
qed

theorem local_list_bounded_witness:
  "length (slot_records (localStorage empty_world (storage_key ''u1''))) \<le> 50 \<and>
   length (slot_records (localStorage (snd (save_all
       (map (\<lambda>n. sample_step n False) [0..<60]) (sample_app, empty_world)))
     (storage_key ''u1''))) \<le> 50"
proof -
  have h: "length (slot_records (localStorage empty_world (storage_key ''u1''))) \<le> 50"
    by (simp add: empty_world_def slot_records_def)
  from h local_list_bounded [OF h] show ?thesis by (rule conjI)
qed

text \<open>
  C3. Fifty-one saves by one signed-in user, each taking the local fallback, on a
  storage that has no slot for the user yet: the slot then holds exactly 50
  recordings, namely all but the first-saved one, the latest first.
\<close>

theorem fifty_one_saves:
  assumes "length steps = 51" "\<forall>s\<in>set steps. local_step s" "appUser a = Some u"
    "localStorage w (storage_key (user_id u)) = None"
  shows "localStorage (snd (save_all steps (a, w))) (storage_key (user_id u)) =
           Some (Records (rev (tl (map (step_recording u) steps))))
         \<and> length (rev (tl (map (step_recording u) steps))) = 50"
proof -
  from assms(1) have ne: "steps \<noteq> []" by auto
  have "localStorage (snd (save_all steps (a, w))) (storage_key (user_id u)) =
      Some (Records (take 50 (rev (map (step_recording u) steps))))"
    using save_all_local [OF assms(2,3) _ _ ne, of w] assms(4) by (simp add: slot_records_def)
  moreover have "take 50 (rev (map (step_recording u) steps)) =
      rev (tl (map (step_recording u) steps))"
    using assms(1) by (simp add: take_rev drop_Suc)
  ultimately show ?thesis using assms(1) by simp
qed

theorem fifty_one_saves_witness:
  "localStorage (snd (save_all (map (\<lambda>n. sample_step n False) [0..<51])
       (sample_app, empty_world))) (storage_key ''u1'') =
     Some (Records (rev (map (\<lambda>n. step_recording sample_user (sample_step n False)) [1..<51])))
   \<and> length (rev (map (\<lambda>n. step_recording sample_user (sample_step n False)) [1..<51])) = 50"
proof -
  have tl: "tl (map (\<lambda>n. step_recording sample_user (sample_step n False)) [0..<51]) =
      map (\<lambda>n. step_recording sample_user (sample_step n False)) [1..<51]"
    by (simp add: upt_conv_Cons [of 0] del: upt_Suc)
  have "local_step (sample_step n False)" for n
    by (simp add: local_step_def sample_step_def sample_env_def fallback_analysis_def
        audio_truthy_def)
  then show ?thesis
    using fifty_one_saves [of "map (\<lambda>n. sample_step n False) [0..<51]" sample_app
        sample_user empty_world] tl
    by (simp add: sample_app_def sample_user_def empty_world_def comp_def)
qed

section \<open>Properties of the classifier adapter\<close>

text \<open>
  C4. Whatever the parser is, a reply text that it rejects makes \<open>analyzeAudio\<close>
  return the fixed record: type general, urgency medium, confidence 75, the fixed
  action text, and the reply itself as the explanation.
\<close>

theorem analyzeAudio_unparseable:
  "parse text = None \<Longrightarrow>
   analyzeAudio parse (Returns text) =
     Returns (JObj [(''type'', JStr ''general''),
                    (''urgency'', JStr ''medium''),
                    (''confidence'', JNum 75),
                    (''action'', JStr ''Check if baby needs feeding, changing, or comfort''),
                    (''explanation'', JStr text)])"
  by (simp add: analyzeAudio_def fallback_analysis_def fallback_action_def)

theorem analyzeAudio_unparseable_witness:
  "json_parse ''The baby sounds hungry'' = None \<and>
   analyzeAudio json_parse (Returns ''The baby sounds hungry'') =
     Returns (JObj [(''type'', JStr ''general''),
                    (''urgency'', JStr ''medium''),
                    (''confidence'', JNum 75),
                    (''action'', JStr ''Check if baby needs feeding, changing, or comfort''),
                    (''explanation'', JStr ''The baby sounds hungry'')])"
proof -
  have h: "json_parse ''The baby sounds hungry'' = None" by code_simp
  from h analyzeAudio_unparseable [of json_parse "''The baby sounds hungry''", OF h]
  show ?thesis by (rule conjI)
qed

lemma bad_reply_parses: "json_parse bad_reply = Some bad_analysis"
  unfolding bad_reply_def bad_analysis_def by code_simp

text \<open>
  C9, as the code has it. Whatever the parser is, an analysis that \<open>analyzeAudio\<close>
  returns is either the fixed record (the reply did not parse), whose urgency is
  medium and whose confidence is 75, or the very value the reply parsed to, with
  no check of its urgency or confidence; and a recording built from an analysis
  copies both fields as they are.
\<close>

theorem analysis_unvalidated:
  "analyzeAudio parse (Returns text) = Returns v \<Longrightarrow>
     ((parse text = None \<and> v = fallback_analysis text \<and> valid_analysis v
         \<and> get_prop ''urgency'' v = Some (JStr ''medium'')
         \<and> get_prop ''confidence'' v = Some (JNum 75))
      \<or> parse text = Some v)
     \<and> urgency (newRecording env u v audio) = get_prop ''urgency'' v
     \<and> confidence (newRecording env u v audio) = get_prop ''confidence'' v"
  by (auto simp: analyzeAudio_def fallback_analysis_def valid_analysis_def valid_urgency_def
      valid_confidence_def newRecording_def split: option.splits)

theorem analysis_unvalidated_witness:
  "analyzeAudio json_parse (Returns bad_reply) = Returns bad_analysis
   \<and> json_parse bad_reply = Some bad_analysis
   \<and> urgency (newRecording (sample_env 1 True) sample_user bad_analysis ''UklGRg=='')
       = get_prop ''urgency'' bad_analysis"
proof -
  have h: "analyzeAudio json_parse (Returns bad_reply) = Returns bad_analysis"
    by (simp add: analyzeAudio_def bad_reply_parses)
  from analysis_unvalidated [OF h, of "sample_env 1 True" sample_user "''UklGRg==''"]
  have "json_parse bad_reply = Some bad_analysis
      \<and> urgency (newRecording (sample_env 1 True) sample_user bad_analysis ''UklGRg=='')
          = get_prop ''urgency'' bad_analysis"
    by (simp add: bad_reply_parses)
  with h show ?thesis by (rule conjI)
qed

text \<open>
  C9, as the claim states it, fails: a reply that parses, with the urgency
  \<open>critical\<close> and the confidence 150, is returned as the analysis, and the
  recording built from it carries both values.
\<close>

theorem analysis_unvalidated_counterexample:
  "analyzeAudio json_parse (Returns bad_reply) = Returns bad_analysis
   \<and> \<not> valid_urgency (get_prop ''urgency'' bad_analysis)
   \<and> \<not> valid_confidence (get_prop ''confidence'' bad_analysis)
   \<and> urgency (newRecording (sample_env 1 True) sample_user bad_analysis ''UklGRg=='')
       = Some (JStr ''critical'')
   \<and> confidence (newRecording (sample_env 1 True) sample_user bad_analysis ''UklGRg=='')
       = Some (JNum 150)"
  by (simp add: analyzeAudio_def bad_reply_parses)
     (simp add: bad_analysis_def valid_urgency_def valid_confidence_def newRecording_def)

section \<open>Properties of the recorder\<close>

text \<open>
  C5. When the data URL was read and the classification request fails, \<open>onstop\<close>
  completes without rejecting, and the callback is invoked exactly once, with the
  encoded audio and \<open>null\<close>; \<open>handleRecordingComplete\<close> then holds that audio and a
  \<open>null\<close> analysis.
\<close>

theorem onstop_transport_failure:
  "snd (snd (onstop parse (Returns dataUrl) Throws st)) = Returns ()
   \<and> filter is_callback (fst (snd (onstop parse (Returns dataUrl) Throws st)))
       = [RecordingComplete (base64Data dataUrl) JNull]
   \<and> currentAnalysis (handleRecordingComplete (base64Data dataUrl) JNull a) = JNull
   \<and> currentAudioData (handleRecordingComplete (base64Data dataUrl) JNull a)
       = base64Data dataUrl"
  by (simp add: onstop_def Let_def analyzeAudio_def handleRecordingComplete_def)

theorem onstop_transport_failure_witness:
  "snd (snd (onstop json_parse (Returns sample_dataUrl) Throws recording_recorder)) = Returns ()
   \<and> filter is_callback
       (fst (snd (onstop json_parse (Returns sample_dataUrl) Throws recording_recorder)))
     = [RecordingComplete (Some ''UklGRg=='') JNull]"
  using onstop_transport_failure [of json_parse sample_dataUrl recording_recorder sample_app]
  by (simp add: base64Data_def sample_dataUrl_def)

text \<open>
  C7, as the code has it. On a stop whose data URL was read, in both versions of
  the handler: the blob is built before it is encoded, the encoding precedes the
  classification request, the request precedes the callback, and the microphone
  is released after the callback.
\<close>

theorem onstop_order:
  assumes "tr = fst (snd (onstop parse (Returns dataUrl) reply st))
         \<or> tr = fst (snd (onstop_v0 parse (Returns dataUrl) reply st))"
  shows "precedes is_blob is_encoded tr
       \<and> precedes is_encoded is_request tr
       \<and> precedes is_request is_callback tr
       \<and> precedes is_callback is_release tr"
  using assms
  by (auto simp: onstop_def onstop_v0_def Let_def precedes_def split: outcome.splits)

theorem onstop_order_witness:
  "precedes is_encoded is_request
      (fst (snd (onstop json_parse (Returns sample_dataUrl) (Returns bad_reply)
         recording_recorder)))
   \<and> precedes is_callback is_release
      (fst (snd (onstop json_parse (Returns sample_dataUrl) (Returns bad_reply)
         recording_recorder)))"
  using onstop_order [of _ json_parse sample_dataUrl "Returns bad_reply" recording_recorder]
  by simp

text \<open>
  C7, as the claim states it, fails: in the trace of a stop, the release of the
  microphone does not precede the classification request.
\<close>

theorem onstop_order_counterexample:
  "\<not> precedes is_release is_request
       (fst (snd (onstop json_parse (Returns sample_dataUrl) (Returns bad_reply)
          recording_recorder)))"
  by (simp add: onstop_def Let_def analyzeAudio_def bad_reply_parses precedes_def
      recording_recorder_def idle_recorder_def frame_pending_def)

text \<open>
  C8. When \<open>getUserMedia\<close> rejects, \<open>startRecording\<close> logs the error and does nothing
  else: the component state is unchanged (so \<open>isRecording\<close> keeps its value, false
  for an idle recorder) and the callback is not invoked.
\<close>

theorem startRecording_acquisition_failure:
  "startRecording Throws freq handle st = (st, [ConsoleError ''Failed to start recording:''])
   \<and> filter is_callback (snd (startRecording Throws freq handle st)) = []
   \<and> isRecording (fst (startRecording Throws freq handle st)) = isRecording st"
  by (simp add: startRecording_def)

theorem startRecording_acquisition_failure_witness:
  "startRecording Throws (replicate 128 0) 1 idle_recorder
     = (idle_recorder, [ConsoleError ''Failed to start recording:''])
   \<and> \<not> isRecording (fst (startRecording Throws (replicate 128 0) 1 idle_recorder))"
  using startRecording_acquisition_failure [of "replicate 128 0" 1 idle_recorder]
  by (simp add: idle_recorder_def)

section \<open>Save, list and delete over the two stores\<close>

lemma insort_key_snoc:
  "\<forall>x\<in>set xs. f x < f r \<Longrightarrow> f y < f r \<Longrightarrow>
     insort_key f y (xs @ [r]) = insort_key f y xs @ [r]"
  by (induction xs) auto

lemma sort_key_snoc:
  "\<forall>x\<in>set xs. f x < f r \<Longrightarrow> sort_key f (xs @ [r]) = sort_key f xs @ [r]"
  by (induction xs) (auto simp: insort_key_snoc)

lemma most_recent_first_sort: "most_recent_first (rev (sort_key createdAt xs))"
proof -
  have "sorted (map createdAt (sort_key createdAt xs))" by simp
  then show ?thesis
    unfolding most_recent_first_def sorted_wrt_rev sorted_wrt_map by simp
qed

lemma db_list_newest:
  assumes "userId r = uid" "\<forall>x\<in>set rows. userId x = uid \<longrightarrow> createdAt x < createdAt r"
  shows "db_list True uid 20 (rows @ [r]) =
     Returns (r # take 19 (rev (sort_key createdAt (filter (\<lambda>x. userId x = uid) rows))))"
proof -
  have "\<forall>x\<in>set (filter (\<lambda>x. userId x = uid) rows). createdAt x < createdAt r"
    using assms(2) by simp
  from sort_key_snoc [of _ createdAt, OF this] assms(1) show ?thesis
    by (simp add: db_list_def)
qed

lemma db_list_sorted: "db_list True uid n rows = Returns rs \<Longrightarrow> most_recent_first rs"
  using most_recent_first_sort [of "filter (\<lambda>r. userId r = uid) rows"]
  by (auto simp: db_list_def most_recent_first_def)

lemma loadRecordings_remote:
  "recordings (fst (loadRecordings True uid h w)) =
     take 20 (rev (sort_key createdAt (filter (\<lambda>r. userId r = uid) (db w))))"
  by (simp add: loadRecordings_def db_list_def)

lemma loadRecordings_local:
  "recordings (fst (loadRecordings False uid h w)) =
     slot_records (localStorage w (storage_key uid))"
  by (simp add: loadRecordings_def db_list_def slot_records_def
      split: option.splits stored.splits)

text \<open>
  C1, as the code has it. A signed-in user saves a recording and then lists.
  When the remote store serves both calls and the new creation time is later
  than that of every row the user has there, the list is not empty, the saved
  recording is its first entry, and the list is most recent first. When the
  local fallback serves both calls (the slot being absent, empty or an array, and
  the write succeeding), the list is the saved recording followed by the first
  49 stored ones, in the order they were stored; it is most recent first when
  the stored list was and held nothing later than the new recording.
\<close>

theorem save_then_list_same_store:
  assumes "truthy (currentAnalysis a)" "currentAudioData a = Some audio" "audio \<noteq> []"
    "appUser a = Some u"
  shows
    "(create_ok env
        \<and> (\<forall>x\<in>set (db w). userId x = user_id u \<longrightarrow> createdAt x < createdAt_now env)
        \<longrightarrow> save_then_list env True a h w \<noteq> []
          \<and> hd (save_then_list env True a h w) = newRecording env u (currentAnalysis a) audio
          \<and> most_recent_first (save_then_list env True a h w))
     \<and> (\<not> create_ok env \<and> setItem_ok env
          \<and> localStorage w (storage_key (user_id u)) \<noteq> Some Malformed
          \<and> localStorage w (storage_key (user_id u)) \<noteq> Some NotArray
        \<longrightarrow> save_then_list env False a h w \<noteq> []
          \<and> hd (save_then_list env False a h w) = newRecording env u (currentAnalysis a) audio
          \<and> save_then_list env False a h w =
              newRecording env u (currentAnalysis a) audio
                # take 49 (slot_records (localStorage w (storage_key (user_id u))))
          \<and> (most_recent_first (slot_records (localStorage w (storage_key (user_id u))))
               \<and> (\<forall>x\<in>set (slot_records (localStorage w (storage_key (user_id u)))).
                     createdAt x \<le> createdAt_now env)
              \<longrightarrow> most_recent_first (save_then_list env False a h w)))"
proof (intro conjI impI)
  let ?r = "newRecording env u (currentAnalysis a) audio"
  let ?k = "storage_key (user_id u)"
  have r: "userId ?r = user_id u" "createdAt ?r = createdAt_now env"
    by (simp_all add: newRecording_def)
  {
    assume up: "create_ok env
      \<and> (\<forall>x\<in>set (db w). userId x = user_id u \<longrightarrow> createdAt x < createdAt_now env)"
    have "db_list True (user_id u) 20 (db w @ [?r]) =
        Returns (?r # take 19 (rev (sort_key createdAt
          (filter (\<lambda>x. userId x = user_id u) (db w)))))"
      using db_list_newest [of ?r "user_id u" "db w"] up r by simp
    then have shown: "save_then_list env True a h w =
        ?r # take 19 (rev (sort_key createdAt (filter (\<lambda>x. userId x = user_id u) (db w))))"
      using handleSave_remote(1) [OF assms, of env w] up assms(4)
      by (simp add: save_then_list_def loadRecordings_def)
    show "save_then_list env True a h w \<noteq> []" using shown by simp
    show "hd (save_then_list env True a h w) = ?r" using shown by simp
    have "db_list True (user_id u) 20 (db (snd (handleSaveRecording env a w))) =
        Returns (save_then_list env True a h w)"
      using assms(4) by (simp add: save_then_list_def loadRecordings_def db_list_def)
    then show "most_recent_first (save_then_list env True a h w)" by (rule db_list_sorted)
  }
  {
    assume down: "\<not> create_ok env \<and> setItem_ok env
          \<and> localStorage w ?k \<noteq> Some Malformed \<and> localStorage w ?k \<noteq> Some NotArray"
    have shown: "save_then_list env False a h w =
        ?r # take 49 (slot_records (localStorage w ?k))"
      using handleSave_local(1) [OF assms, of env w] down assms(4)
      by (simp add: save_then_list_def loadRecordings_local slot_records_def)
    show "save_then_list env False a h w \<noteq> []" using shown by simp
    show "hd (save_then_list env False a h w) = ?r" using shown by simp
    show "save_then_list env False a h w = ?r # take 49 (slot_records (localStorage w ?k))"
      by (rule shown)
    {
      assume old: "most_recent_first (slot_records (localStorage w ?k))
          \<and> (\<forall>x\<in>set (slot_records (localStorage w ?k)). createdAt x \<le> createdAt_now env)"
      then have "sorted_wrt (\<lambda>a b. createdAt b \<le> createdAt a)
          (take 49 (slot_records (localStorage w ?k)))"
        unfolding most_recent_first_def by simp
      moreover have "\<forall>x\<in>set (take 49 (slot_records (localStorage w ?k))).
          createdAt x \<le> createdAt_now env"
        using old by (auto dest: in_set_takeD)
      ultimately show "most_recent_first (save_then_list env False a h w)"
        unfolding shown most_recent_first_def using r by simp
    }
  }
qed

theorem save_then_list_same_store_witness:
  "hd (save_then_list (sample_env 5 True) True pending_app sample_history remote_world)
     = step_recording sample_user (sample_step 5 True)
   \<and> most_recent_first
       (save_then_list (sample_env 5 True) True pending_app sample_history remote_world)
   \<and> hd (save_then_list (sample_env 5 False) False pending_app sample_history empty_world)
     = step_recording sample_user (sample_step 5 False)
   \<and> most_recent_first
       (save_then_list (sample_env 5 False) False pending_app sample_history empty_world)"
proof -
  have pre: "truthy (currentAnalysis pending_app)"
    "currentAudioData pending_app = Some ''UklGRg==''"
    "''UklGRg=='' \<noteq> []" "appUser pending_app = Some sample_user"
    by (simp_all add: pending_app_def sample_app_def handleRecordingComplete_def
        fallback_analysis_def)
  have an: "currentAnalysis pending_app = fallback_analysis ''hungry''"
    by (simp add: pending_app_def handleRecordingComplete_def)
  have remote: "create_ok (sample_env 5 True) \<and> (\<forall>x\<in>set (db remote_world).
      userId x = user_id sample_user \<longrightarrow> createdAt x < createdAt_now (sample_env 5 True))"
    by (simp add: sample_env_def remote_world_def empty_world_def sample_recording_def
        step_recording_def newRecording_def sample_step_def)
  have local: "\<not> create_ok (sample_env 5 False) \<and> setItem_ok (sample_env 5 False)
      \<and> localStorage empty_world (storage_key (user_id sample_user)) \<noteq> Some Malformed
      \<and> localStorage empty_world (storage_key (user_id sample_user)) \<noteq> Some NotArray"
    by (simp add: sample_env_def empty_world_def)
  have old: "most_recent_first
        (slot_records (localStorage empty_world (storage_key (user_id sample_user))))
      \<and> (\<forall>x\<in>set (slot_records (localStorage empty_world (storage_key (user_id sample_user)))).
            createdAt x \<le> createdAt_now (sample_env 5 False))"
    by (simp add: empty_world_def slot_records_def most_recent_first_def)
  have served_remote:
    "hd (save_then_list (sample_env 5 True) True pending_app sample_history remote_world)
       = newRecording (sample_env 5 True) sample_user (currentAnalysis pending_app) ''UklGRg==''
     \<and> most_recent_first
         (save_then_list (sample_env 5 True) True pending_app sample_history remote_world)"
    using save_then_list_same_store [OF pre, of "sample_env 5 True" remote_world sample_history]
      remote
    by blast
  have served_local:
    "hd (save_then_list (sample_env 5 False) False pending_app sample_history empty_world)
       = newRecording (sample_env 5 False) sample_user (currentAnalysis pending_app) ''UklGRg==''
     \<and> most_recent_first
         (save_then_list (sample_env 5 False) False pending_app sample_history empty_world)"
    using save_then_list_same_store [OF pre, of "sample_env 5 False" empty_world sample_history]
      local old
    by blast
  show ?thesis
    using served_remote served_local
    by (simp add: an step_recording_def sample_step_def)
qed

text \<open>
  C1, as the claim states it, fails: a save that the local fallback serves (the
  remote create fails, the recording lands in the slot of the user) followed by
  a list that the remote store serves returns nothing, so not the saved
  recording.
\<close>

theorem save_then_list_counterexample:
  "slot_records (localStorage (snd (handleSaveRecording (sample_env 1 False) pending_app
        empty_world)) (storage_key ''u1''))
     = [step_recording sample_user (sample_step 1 False)]
   \<and> save_then_list (sample_env 1 False) True pending_app sample_history empty_world = []
   \<and> step_recording sample_user (sample_step 1 False)
       \<notin> set (save_then_list (sample_env 1 False) True pending_app sample_history empty_world)"
  by (simp add: save_then_list_def pending_app_def sample_app_def handleRecordingComplete_def
      handleSaveRecording_def fallback_analysis_def audio_truthy_def sample_env_def
      db_create_def Let_def save_local_def empty_world_def loadRecordings_def db_list_def
      sample_user_def slot_records_def storage_key_def step_recording_def sample_step_def)



lemma deleteRecording_local:
  "usingLocalStorage h \<or> \<not> delete_ok \<Longrightarrow> write_ok \<Longrightarrow> histUser h = Some u \<Longrightarrow>
   localStorage (snd (deleteRecording delete_ok write_ok i h w)) =
     (localStorage w)(storage_key (user_id u) \<mapsto>
        Records (filter (\<lambda>r. rid r \<noteq> i) (recordings h)))"
  by (auto simp: deleteRecording_def Let_def db_delete_def delete_local_def)






text \<open>
  C10. When a delete writes the local slot (the history is in local mode, or the
  remote delete failed) for the signed-in user, the slot becomes the displayed
  list without the deleted id, whatever it held before: a recording that is not
  displayed is not in the slot afterwards. A list loaded from the remote store
  has at most 20 entries.
\<close>

theorem delete_fallback_replaces_slot:
  assumes "usingLocalStorage h \<or> \<not> delete_ok" "write_ok" "histUser h = Some u"
  shows "localStorage (snd (deleteRecording delete_ok write_ok i h w)) (storage_key (user_id u)) =
           Some (Records (filter (\<lambda>r. rid r \<noteq> i) (recordings h)))
         \<and> (\<forall>r. r \<notin> set (recordings h) \<longrightarrow>
               r \<notin> set (slot_records (localStorage
                     (snd (deleteRecording delete_ok write_ok i h w))
                     (storage_key (user_id u)))))
         \<and> length (recordings (fst (loadRecordings True uid h0 w0))) \<le> 20"
  using deleteRecording_local [OF assms, of i w]
  by (simp add: slot_records_def loadRecordings_remote)

theorem delete_fallback_replaces_slot_witness:
  "localStorage (snd (deleteRecording False True (rid sample_recording) loaded_history
        stale_world)) (storage_key ''u1'') = Some (Records [])
   \<and> length (recordings (fst (loadRecordings True ''u1'' sample_history remote_world))) \<le> 20"
  using delete_fallback_replaces_slot [of loaded_history False True sample_user
      "rid sample_recording" stale_world "''u1''" sample_history remote_world]
  by (simp add: loaded_history_def sample_history_def sample_user_def)

end
